theory Spec2Isabelle
  imports Main "HOL-Library.Word"
begin

unbundle bit_operations_syntax

section \<open>Machine integers\<close>

text \<open>
  Every integer of \<^verbatim>\<open>nunchuckreader.h\<close> is a C++ \<^verbatim>\<open>int\<close>: a 32-bit two's complement
  value, read through \<open>sint\<close>. \<^verbatim>\<open>x << n\<close> is \<open>push_bit n x\<close>, \<^verbatim>\<open>x >> n\<close> on a signed
  operand is the arithmetic shift \<open>signed_drop_bit n x\<close>, and \<^verbatim>\<open>a < b\<close> compares the
  signed readings.
\<close>

type_synonym cint = "32 word"

section \<open>Data\<close>

record RawNunchuckData =
  joystickPositionX :: cint
  joystickPositionY :: cint
  accelerationOnX :: cint
  accelerationOnY :: cint
  accelerationOnZ :: cint
  buttonCState :: cint
  buttonZState :: cint

datatype InitializationMode = ENCRYPTED | NOT_ENCRYPTED

definition NUNCHUCK_I2C_ADDRESS :: cint where
  "NUNCHUCK_I2C_ADDRESS = 0x52"

definition MINIMUN_CIRCUIT_ADAPTATION_WAIT_MICROSECONDS :: cint where
  "MINIMUN_CIRCUIT_ADAPTATION_WAIT_MICROSECONDS = 300"

definition DEFAULT_CIRCUIT_ADAPTATION_WAIT_MICROSECONDS :: cint where
  "DEFAULT_CIRCUIT_ADAPTATION_WAIT_MICROSECONDS = 500"

text \<open>The private members of \<^verbatim>\<open>class NunchuckReader\<close>, with the source's spelling.\<close>

record NunchuckReader =
  encyptedModeEnabled :: bool
  i2CPortFileDescriptor :: cint
  circuitAdaptationWaitMicrosecons :: cint

text \<open>
  The three \<^verbatim>\<open>throw\<close> statements of the constructor and of \<^verbatim>\<open>initI2C\<close>, which the
  specification calls \<^verbatim>\<open>InvalidConfigurationError\<close>, \<^verbatim>\<open>TransportError\<close> and
  \<^verbatim>\<open>InvalidModeError\<close>. The \<^verbatim>\<open>default:\<close> branch of the constructor's \<^verbatim>\<open>switch\<close> is not
  reachable from the two enumerators of \<open>InitializationMode\<close>, so
  \<open>InvalidInitializationMode\<close> is never built.
\<close>

datatype error =
  MinimumWaitViolated
  | I2CSetupFailed
  | InvalidInitializationMode

section \<open>The platform: the I2C bus of wiringPi and the clock\<close>

text \<open>
  The driver calls \<^verbatim>\<open>wiringPiI2CSetup\<close>, \<^verbatim>\<open>wiringPiI2CWriteReg8\<close>, \<^verbatim>\<open>wiringPiI2CWrite\<close>,
  \<^verbatim>\<open>wiringPiI2CRead\<close> and \<^verbatim>\<open>std::this_thread::sleep_for\<close>. They are external, so the
  platform is a parameter: it fixes what the setup call returns and what the k-th read call
  returns, and it records every call in order. wiringPi reports a failure through a
  negative return value; the source tests that for the setup call only and discards
  the value returned by the two write functions.
\<close>

datatype event =
  I2CSetup cint
  | I2CWriteReg8 cint cint cint
  | I2CWrite cint cint
  | I2CRead cint
  | SleepMicroseconds cint

record platform =
  setup_result :: cint
  read_result :: "nat \<Rightarrow> cint"
  reads_done :: nat
  trace :: "event list"

definition wiringPiI2CSetup :: "cint \<Rightarrow> platform \<Rightarrow> cint \<times> platform" where
  "wiringPiI2CSetup devId p = (setup_result p, p\<lparr>trace := trace p @ [I2CSetup devId]\<rparr>)"

definition wiringPiI2CWriteReg8 :: "cint \<Rightarrow> cint \<Rightarrow> cint \<Rightarrow> platform \<Rightarrow> platform" where
  "wiringPiI2CWriteReg8 fd reg val p = p\<lparr>trace := trace p @ [I2CWriteReg8 fd reg val]\<rparr>"

definition wiringPiI2CWrite :: "cint \<Rightarrow> cint \<Rightarrow> platform \<Rightarrow> platform" where
  "wiringPiI2CWrite fd val p = p\<lparr>trace := trace p @ [I2CWrite fd val]\<rparr>"

definition wiringPiI2CRead :: "cint \<Rightarrow> platform \<Rightarrow> cint \<times> platform" where
  "wiringPiI2CRead fd p =
     (read_result p (reads_done p),
      p\<lparr>reads_done := Suc (reads_done p), trace := trace p @ [I2CRead fd]\<rparr>)"

definition sleep_for_microseconds :: "cint \<Rightarrow> platform \<Rightarrow> platform" where
  "sleep_for_microseconds n p = p\<lparr>trace := trace p @ [SleepMicroseconds n]\<rparr>"

section \<open>The driver\<close>

text \<open>A member function runs on the object and the platform together.\<close>

record machine =
  obj :: NunchuckReader
  hw :: platform

definition initI2C :: "machine \<Rightarrow> (error + unit) \<times> machine" where
  "initI2C m =
     (let (fd, p) = wiringPiI2CSetup NUNCHUCK_I2C_ADDRESS (hw m);
          m' = m\<lparr>obj := (obj m)\<lparr>i2CPortFileDescriptor := fd\<rparr>, hw := p\<rparr>
      in if sint (i2CPortFileDescriptor (obj m')) < 0 then (Inl I2CSetupFailed, m')
         else (Inr (), m'))"

definition initWithEncryption :: "machine \<Rightarrow> machine" where
  "initWithEncryption m =
     (let p1 = wiringPiI2CWriteReg8 (i2CPortFileDescriptor (obj m)) 0x40 0x00 (hw m);
          p2 = sleep_for_microseconds (circuitAdaptationWaitMicrosecons (obj m)) p1
      in m\<lparr>obj := (obj m)\<lparr>encyptedModeEnabled := True\<rparr>, hw := p2\<rparr>)"

definition initWithoutEncryption :: "machine \<Rightarrow> machine" where
  "initWithoutEncryption m =
     (let p1 = wiringPiI2CWriteReg8 (i2CPortFileDescriptor (obj m)) 0xF0 0x55 (hw m);
          p2 = wiringPiI2CWriteReg8 (i2CPortFileDescriptor (obj m)) 0xFB 0x00 p1;
          p3 = sleep_for_microseconds (circuitAdaptationWaitMicrosecons (obj m)) p2
      in m\<lparr>obj := (obj m)\<lparr>encyptedModeEnabled := False\<rparr>, hw := p3\<rparr>)"

text \<open>
  The two-argument constructor. \<open>storage\<close> is the not yet initialised object the
  constructor runs on. A \<^verbatim>\<open>throw\<close> leaves no object: the result is \<open>Inl\<close> and the
  platform as the calls made so far have left it.
\<close>

definition NunchuckReader_ctor ::
  "cint \<Rightarrow> InitializationMode \<Rightarrow> NunchuckReader \<Rightarrow> platform \<Rightarrow> (error + NunchuckReader) \<times> platform"
where
  "NunchuckReader_ctor circuitAdaptationWaitMicroseconds initializationMode storage p =
     (if sint circuitAdaptationWaitMicroseconds
           < sint MINIMUN_CIRCUIT_ADAPTATION_WAIT_MICROSECONDS
      then (Inl MinimumWaitViolated, p)
      else
        let m0 = \<lparr>obj = storage\<lparr>circuitAdaptationWaitMicrosecons :=
                                    circuitAdaptationWaitMicroseconds\<rparr>,
                  hw = p\<rparr>
        in case initI2C m0 of
             (Inl e, m1) \<Rightarrow> (Inl e, hw m1)
           | (Inr _, m1) \<Rightarrow>
               (case initializationMode of
                  ENCRYPTED \<Rightarrow> (let m2 = initWithEncryption m1 in (Inr (obj m2), hw m2))
                | NOT_ENCRYPTED \<Rightarrow> (let m2 = initWithoutEncryption m1 in (Inr (obj m2), hw m2))))"

text \<open>The one-argument constructor delegates with the default wait.\<close>

definition NunchuckReader_ctor_default ::
  "InitializationMode \<Rightarrow> NunchuckReader \<Rightarrow> platform \<Rightarrow> (error + NunchuckReader) \<times> platform"
where
  "NunchuckReader_ctor_default initializationMode storage p =
     NunchuckReader_ctor DEFAULT_CIRCUIT_ADAPTATION_WAIT_MICROSECONDS initializationMode storage p"

definition isEncryptedModeEnabled :: "machine \<Rightarrow> bool \<times> machine" where
  "isEncryptedModeEnabled m = (encyptedModeEnabled (obj m), m)"

text \<open>\<^verbatim>\<open>decrypt\<close> is a private member that no other member calls.\<close>

definition decrypt :: "cint \<Rightarrow> cint" where
  "decrypt readByte = (readByte XOR 0x17) + 0x17"

text \<open>
  The \<^verbatim>\<open>for (i=0; i<6; i++)\<close> loop of \<^verbatim>\<open>fetchDeviceBuffer\<close>, from the value of \<open>i\<close> on.
\<close>

function fetch_loop :: "nat \<Rightarrow> cint list \<Rightarrow> machine \<Rightarrow> cint list \<times> machine" where
  "fetch_loop i readBuffer m =
     (if i < 6
      then let (v, p) = wiringPiI2CRead (i2CPortFileDescriptor (obj m)) (hw m)
           in fetch_loop (i + 1) (readBuffer[i := v]) (m\<lparr>hw := p\<rparr>)
      else (readBuffer, m))"
  by pat_completeness auto
termination
  by (relation "measure (\<lambda>(i, readBuffer, m). 6 - i)") auto

declare fetch_loop.simps [simp del]

definition fetchDeviceBuffer :: "cint list \<Rightarrow> machine \<Rightarrow> cint list \<times> machine" where
  "fetchDeviceBuffer readBuffer m =
     (let p1 = wiringPiI2CWrite (i2CPortFileDescriptor (obj m)) 0x00 (hw m);
          p2 = sleep_for_microseconds (circuitAdaptationWaitMicrosecons (obj m)) p1
      in fetch_loop 0 readBuffer (m\<lparr>hw := p2\<rparr>))"

definition parseDeviceBuffer :: "cint list \<Rightarrow> RawNunchuckData" where
  "parseDeviceBuffer readBuffer =
     (let joyX = readBuffer ! 0;
          joyY = readBuffer ! 1;
          rawAccelX = push_bit 2 (readBuffer ! 2) OR signed_drop_bit 6 (readBuffer ! 5 AND 0xc0);
          rawAccelY = push_bit 2 (readBuffer ! 3) OR signed_drop_bit 4 (readBuffer ! 5 AND 0x30);
          rawAccelZ = push_bit 2 (readBuffer ! 4) OR signed_drop_bit 2 (readBuffer ! 5 AND 0x0c);
          c = signed_drop_bit 1 (readBuffer ! 5 AND 0x02);
          z = readBuffer ! 5 AND 0x01
      in \<lparr>joystickPositionX = joyX, joystickPositionY = joyY,
          accelerationOnX = rawAccelX, accelerationOnY = rawAccelY,
          accelerationOnZ = rawAccelZ, buttonCState = c, buttonZState = z\<rparr>)"

text \<open>
  \<^verbatim>\<open>int readBuffer[6];\<close> is a local array of six cells that the source does not
  initialise; the model starts it at 0, and \<open>fetchDeviceBuffer\<close> overwrites each of the
  six cells before \<open>parseDeviceBuffer\<close> reads them (lemma \<open>fetchDeviceBuffer_cells\<close>).
\<close>

definition readRawData :: "machine \<Rightarrow> RawNunchuckData \<times> machine" where
  "readRawData m =
     (let (readBuffer, m') = fetchDeviceBuffer (replicate 6 0) m
      in (parseDeviceBuffer readBuffer, m'))"

text \<open>
  Modelled from the spec: \<^verbatim>\<open>nunchuckdata.h\<close>, which declares \<^verbatim>\<open>NunchuckJoystick\<close>,
  \<^verbatim>\<open>NunchuckAccelerometer\<close>, \<^verbatim>\<open>NunchuckButton\<close> and \<^verbatim>\<open>NunchuckData\<close>, is not among the
  sources. The spec calls them plain data containers and the structured reading a pure
  relabelling of the raw one, so each is a container of the constructor arguments, in
  the order in which \<^verbatim>\<open>readDeviceValues\<close> passes them: the joystick, the accelerometer,
  the Z button, the C button.
\<close>

datatype NunchuckJoystick = NunchuckJoystick (joystick_x: cint) (joystick_y: cint)

datatype NunchuckAccelerometer =
  NunchuckAccelerometer (accelerometer_x: cint) (accelerometer_y: cint) (accelerometer_z: cint)

datatype NunchuckButton = NunchuckButton (button_state: cint)

datatype NunchuckData =
  NunchuckData (data_joystick: NunchuckJoystick) (data_accelerometer: NunchuckAccelerometer)
    (data_buttonZ: NunchuckButton) (data_buttonC: NunchuckButton)

definition readDeviceValues :: "machine \<Rightarrow> NunchuckData \<times> machine" where
  "readDeviceValues m =
     (let (rawData, m') = readRawData m;
          joystick = NunchuckJoystick (joystickPositionX rawData) (joystickPositionY rawData);
          accelerometer = NunchuckAccelerometer (accelerationOnX rawData)
                            (accelerationOnY rawData) (accelerationOnZ rawData);
          buttonC = NunchuckButton (buttonCState rawData);
          buttonZ = NunchuckButton (buttonZState rawData)
      in (NunchuckData joystick accelerometer buttonZ buttonC, m'))"

section \<open>The specification's vocabulary\<close>

text \<open>A byte value is an \<^verbatim>\<open>int\<close> between 0 and 255; a raw frame is six of them.\<close>

definition is_byte :: "cint \<Rightarrow> bool" where
  "is_byte x = (0 \<le> sint x \<and> sint x \<le> 255)"

definition byte_frame :: "cint list \<Rightarrow> bool" where
  "byte_frame readBuffer = (length readBuffer = 6 \<and> list_all is_byte readBuffer)"

text \<open>
  The decrypt transform as the specification words it, on unbounded integers:
  \<^verbatim>\<open>(rawByte XOR 0x17) + 0x17\<close>, reduced modulo 256.
\<close>

definition spec_decrypt :: "int \<Rightarrow> int" where
  "spec_decrypt rawByte = ((rawByte XOR 0x17) + 0x17) mod 256"

text \<open>
  The decode of the specification, on unbounded integers, and the reading of a
  \<open>RawNunchuckData\<close> as such integers.
\<close>

record RawReading =
  joystickX :: int
  joystickY :: int
  accelX :: int
  accelY :: int
  accelZ :: int
  buttonC :: int
  buttonZ :: int

definition spec_decode :: "int list \<Rightarrow> RawReading" where
  "spec_decode b =
     \<lparr>joystickX = b ! 0,
      joystickY = b ! 1,
      accelX = push_bit 2 (b ! 2) OR drop_bit 6 (b ! 5 AND 0xC0),
      accelY = push_bit 2 (b ! 3) OR drop_bit 4 (b ! 5 AND 0x30),
      accelZ = push_bit 2 (b ! 4) OR drop_bit 2 (b ! 5 AND 0x0C),
      buttonC = drop_bit 1 (b ! 5 AND 0x02),
      buttonZ = b ! 5 AND 0x01\<rparr>"

definition reading_of :: "RawNunchuckData \<Rightarrow> RawReading" where
  "reading_of d =
     \<lparr>joystickX = sint (joystickPositionX d),
      joystickY = sint (joystickPositionY d),
      accelX = sint (accelerationOnX d),
      accelY = sint (accelerationOnY d),
      accelZ = sint (accelerationOnZ d),
      buttonC = sint (buttonCState d),
      buttonZ = sint (buttonZState d)\<rparr>"

text \<open>The values that the next six calls of \<open>wiringPiI2CRead\<close> return, in call order.\<close>

definition frame_from :: "platform \<Rightarrow> cint list" where
  "frame_from p = map (\<lambda>k. read_result p (reads_done p + k)) [0..<6]"

text \<open>
  What one fetch of an object \<open>r\<close> does on the bus and the clock, in order, and the machine
  after it: the object as it was, six more reads counted, the calls appended to the trace.
\<close>

definition fetch_events :: "NunchuckReader \<Rightarrow> event list" where
  "fetch_events r =
     [I2CWrite (i2CPortFileDescriptor r) 0x00,
      SleepMicroseconds (circuitAdaptationWaitMicrosecons r),
      I2CRead (i2CPortFileDescriptor r), I2CRead (i2CPortFileDescriptor r),
      I2CRead (i2CPortFileDescriptor r), I2CRead (i2CPortFileDescriptor r),
      I2CRead (i2CPortFileDescriptor r), I2CRead (i2CPortFileDescriptor r)]"

definition fetched :: "machine \<Rightarrow> machine" where
  "fetched m = m\<lparr>hw := (hw m)\<lparr>reads_done := reads_done (hw m) + 6,
                                trace := trace (hw m) @ fetch_events (obj m)\<rparr>\<rparr>"

text \<open>
  A caller of an initialised driver: any sequence of the three public member functions.
\<close>

datatype operation = ReadRawData | ReadDeviceValues | IsEncryptedModeEnabled

fun perform :: "operation \<Rightarrow> machine \<Rightarrow> machine" where
  "perform ReadRawData m = snd (readRawData m)"
| "perform ReadDeviceValues m = snd (readDeviceValues m)"
| "perform IsEncryptedModeEnabled m = snd (isEncryptedModeEnabled m)"

fun run :: "operation list \<Rightarrow> machine \<Rightarrow> machine" where
  "run [] m = m"
| "run (x # xs) m = run xs (perform x m)"

section \<open>Signed and unsigned readings of small values\<close>

lemma sint_small: "uint (w :: cint) < 2 ^ 31 \<Longrightarrow> sint w = uint w"
proof -
  assume "uint w < 2 ^ 31"
  moreover have "- (2 ^ 31) \<le> uint w"
    by (rule order_trans [of _ 0]) simp_all
  ultimately have "signed_take_bit 31 (uint w) = uint w"
    by (rule signed_take_bit_int_eq_self [rotated])
  then show ?thesis by (simp add: sint_uint)
qed

lemma is_byte_uint:
  assumes "is_byte x"
  shows "uint x = sint x" and "uint x < 256"
proof -
  have nn: "0 \<le> sint x" and le: "sint x \<le> 255" using assms by (simp_all add: is_byte_def)
  have "sint x < 2 ^ 32" using le by simp
  with nn have "take_bit 32 (sint x) = sint x" by (intro take_bit_int_eq_self)
  then show u: "uint x = sint x" by (simp add: uint_sint)
  show "uint x < 256" using u le by simp
qed

lemma drop_bit_int_le: "0 \<le> k \<Longrightarrow> drop_bit n k \<le> (k :: int)"
proof (cases "k = 0")
  case True
  then show ?thesis by simp
next
  case False
  assume "0 \<le> k"
  with False have "0 < k" by simp
  then show ?thesis by (simp add: drop_bit_eq_div int_div_le_self)
qed

lemma uint_and_low:
  fixes y m :: cint
  assumes "uint m < 256"
  shows "uint (y AND m) = uint y AND uint m" and "uint (y AND m) < 256"
proof -
  show e: "uint (y AND m) = uint y AND uint m" by (rule uint_and)
  have "uint y AND uint m \<le> uint m" by (rule AND_upper2) simp
  with assms e show "uint (y AND m) < 256" by simp
qed

lemma uint_shifted_field:
  fixes y m :: cint
  assumes "uint m < 256"
  shows "uint (signed_drop_bit n (y AND m)) = drop_bit n (uint y AND uint m)"
    and "uint (signed_drop_bit n (y AND m)) < 256"
proof -
  let ?f = "uint y AND uint m"
  have f: "uint (y AND m) = ?f" "uint (y AND m) < 256"
    using uint_and_low [OF assms] by auto
  have nn: "0 \<le> ?f" by simp
  have "sint (y AND m) = ?f" using f by (simp add: sint_small)
  then have s: "sint (signed_drop_bit n (y AND m)) = drop_bit n ?f"
    by (simp add: sint_signed_drop_bit_eq)
  have le: "drop_bit n ?f \<le> ?f" using nn by (rule drop_bit_int_le)
  have lt: "drop_bit n ?f < 256" using le f by simp
  have nn': "0 \<le> drop_bit n ?f" using nn by simp
  have "take_bit 32 (drop_bit n ?f) = drop_bit n ?f"
    using nn' lt by (intro take_bit_int_eq_self) simp_all
  then show u: "uint (signed_drop_bit n (y AND m)) = drop_bit n (uint y AND uint m)"
    using s by (simp add: uint_sint)
  show "uint (signed_drop_bit n (y AND m)) < 256" using u lt by simp
qed

lemma uint_push_bit_2:
  fixes x :: cint
  assumes "uint x < 256"
  shows "uint (push_bit 2 x) = push_bit 2 (uint x)" and "uint (push_bit 2 x) < 1024"
proof -
  have lt: "push_bit 2 (uint x) < 1024" using assms by (simp add: push_bit_eq_mult)
  have "take_bit 32 (push_bit 2 (uint x)) = push_bit 2 (uint x)"
    using lt by (intro take_bit_int_eq_self) simp_all
  then show u: "uint (push_bit 2 x) = push_bit 2 (uint x)"
    by (simp add: unsigned_push_bit_eq)
  show "uint (push_bit 2 x) < 1024" using u lt by simp
qed

text \<open>One accelerometer axis: the coarse byte shifted up, with two bits of the packed byte.\<close>

lemma accel_field:
  fixes x y m :: cint
  assumes "uint x < 256" and "uint m < 256"
  shows "sint (push_bit 2 x OR signed_drop_bit n (y AND m))
           = push_bit 2 (uint x) OR drop_bit n (uint y AND uint m)"
    and "0 \<le> sint (push_bit 2 x OR signed_drop_bit n (y AND m))"
    and "sint (push_bit 2 x OR signed_drop_bit n (y AND m)) \<le> 1023"
proof -
  let ?w = "push_bit 2 x OR signed_drop_bit n (y AND m)"
  have u: "uint ?w = push_bit 2 (uint x) OR drop_bit n (uint y AND uint m)"
    by (simp add: uint_or uint_push_bit_2 [OF assms(1)] uint_shifted_field [OF assms(2)])
  have "uint (push_bit 2 x) < 2 ^ 10" using uint_push_bit_2 (2) [OF assms(1)] by simp
  moreover have "uint (signed_drop_bit n (y AND m)) < 2 ^ 10"
    using uint_shifted_field (2) [OF assms(2), of n y] by simp
  ultimately have "uint (push_bit 2 x) OR uint (signed_drop_bit n (y AND m)) < 2 ^ 10"
    by (intro OR_upper) simp_all
  then have lt: "uint ?w < 1024" by (simp add: uint_or)
  then have s: "sint ?w = uint ?w" by (simp add: sint_small)
  show "sint ?w = push_bit 2 (uint x) OR drop_bit n (uint y AND uint m)" using s u by simp
  show "0 \<le> sint ?w" using s by simp
  show "sint ?w \<le> 1023" using s lt by simp
qed

section \<open>The fetch loop\<close>

text \<open>
  The loop entered at \<open>i\<close> keeps the cells below \<open>i\<close> and fills cell \<open>j \<ge> i\<close> with the
  result of the \<open>(j - i)\<close>-th read from now; it leaves the object alone and makes
  \<open>6 - i\<close> reads.
\<close>

lemma fetch_loop_buffer:
  "i \<le> 6 \<Longrightarrow> length readBuffer = 6 \<Longrightarrow>
   fst (fetch_loop i readBuffer m) =
     map (\<lambda>j. if j < i then readBuffer ! j
               else read_result (hw m) (reads_done (hw m) + (j - i))) [0..<6]"
proof (induction i readBuffer m rule: fetch_loop.induct)
  case (1 i readBuffer m)
  show ?case
  proof (cases "i < 6")
    case True
    let ?v = "read_result (hw m) (reads_done (hw m))"
    let ?p = "(hw m)\<lparr>reads_done := Suc (reads_done (hw m)),
                trace := trace (hw m) @ [I2CRead (i2CPortFileDescriptor (obj m))]\<rparr>"
    have rd: "wiringPiI2CRead (i2CPortFileDescriptor (obj m)) (hw m) = (?v, ?p)"
      by (simp add: wiringPiI2CRead_def)
    have step: "fetch_loop i readBuffer m
                  = fetch_loop (i + 1) (readBuffer[i := ?v]) (m\<lparr>hw := ?p\<rparr>)"
      using True by (subst fetch_loop.simps) (simp add: rd)
    have ih: "fst (fetch_loop (i + 1) (readBuffer[i := ?v]) (m\<lparr>hw := ?p\<rparr>)) =
      map (\<lambda>j. if j < i + 1 then readBuffer[i := ?v] ! j
                else read_result (hw (m\<lparr>hw := ?p\<rparr>))
                       (reads_done (hw (m\<lparr>hw := ?p\<rparr>)) + (j - (i + 1)))) [0..<6]"
      using True "1.prems" by (intro "1.IH" [OF True rd [symmetric]]) simp_all
    show ?thesis
      unfolding step ih using True "1.prems"
      by (auto simp: nth_list_update Suc_diff_Suc less_Suc_eq)
  next
    case False
    with "1.prems" have i: "i = 6" by simp
    have "fetch_loop i readBuffer m = (readBuffer, m)"
      using False by (subst fetch_loop.simps) simp
    moreover have "map (\<lambda>j. if j < i then readBuffer ! j
                        else read_result (hw m) (reads_done (hw m) + (j - i))) [0..<6]
                   = map (\<lambda>j. readBuffer ! j) [0..<length readBuffer]"
      using "1.prems" i by simp
    ultimately show ?thesis by (simp add: map_nth)
  qed
qed

lemma fetch_loop_machine:
  "i \<le> 6 \<Longrightarrow>
   snd (fetch_loop i readBuffer m) =
     m\<lparr>hw := (hw m)\<lparr>reads_done := reads_done (hw m) + (6 - i),
                     trace := trace (hw m)
                       @ replicate (6 - i) (I2CRead (i2CPortFileDescriptor (obj m)))\<rparr>\<rparr>"
proof (induction i readBuffer m rule: fetch_loop.induct)
  case (1 i readBuffer m)
  show ?case
  proof (cases "i < 6")
    case True
    let ?fd = "i2CPortFileDescriptor (obj m)"
    let ?v = "read_result (hw m) (reads_done (hw m))"
    let ?p = "(hw m)\<lparr>reads_done := Suc (reads_done (hw m)),
                trace := trace (hw m) @ [I2CRead ?fd]\<rparr>"
    let ?m = "m\<lparr>hw := ?p\<rparr>"
    have rd: "wiringPiI2CRead ?fd (hw m) = (?v, ?p)"
      by (simp add: wiringPiI2CRead_def)
    have step: "fetch_loop i readBuffer m = fetch_loop (i + 1) (readBuffer[i := ?v]) ?m"
      using True by (subst fetch_loop.simps) (simp add: rd)
    have ih: "snd (fetch_loop (i + 1) (readBuffer[i := ?v]) ?m) =
       ?m\<lparr>hw := (hw ?m)\<lparr>reads_done := reads_done (hw ?m) + (6 - (i + 1)),
                     trace := trace (hw ?m)
                       @ replicate (6 - (i + 1)) (I2CRead (i2CPortFileDescriptor (obj ?m)))\<rparr>\<rparr>"
      using True by (intro "1.IH" [OF True rd [symmetric]]) simp_all
    have rep: "replicate (6 - i) (I2CRead ?fd)
                 = I2CRead ?fd # replicate (6 - (i + 1)) (I2CRead ?fd)"
      using True by (simp add: Suc_diff_Suc flip: replicate_Suc)
    show ?thesis
      unfolding step ih rep using True by simp
  next
    case False
    with "1.prems" have i: "i = 6" by simp
    have "fetch_loop i readBuffer m = (readBuffer, m)"
      using False by (subst fetch_loop.simps) simp
    then show ?thesis using i by simp
  qed
qed

lemma frame_from_list:
  "frame_from p =
     [read_result p (reads_done p), read_result p (reads_done p + 1),
      read_result p (reads_done p + 2), read_result p (reads_done p + 3),
      read_result p (reads_done p + 4), read_result p (reads_done p + 5)]"
proof -
  have "[0..<6] = [0, 1, 2, 3, 4, 5 :: nat]" by (simp add: upt_rec)
  then show ?thesis by (simp add: frame_from_def)
qed

lemma replicate_6: "replicate 6 x = [x, x, x, x, x, x]"
  by (simp add: numeral_eq_Suc)

lemma fetchDeviceBuffer_eq:
  assumes "length readBuffer = 6"
  shows "fetchDeviceBuffer readBuffer m = (frame_from (hw m), fetched m)"
proof -
  let ?fd = "i2CPortFileDescriptor (obj m)"
  let ?p2 = "(hw m)\<lparr>trace := trace (hw m) @ [I2CWrite ?fd 0x00,
                SleepMicroseconds (circuitAdaptationWaitMicrosecons (obj m))]\<rparr>"
  have start: "fetchDeviceBuffer readBuffer m = fetch_loop 0 readBuffer (m\<lparr>hw := ?p2\<rparr>)"
    by (simp add: fetchDeviceBuffer_def wiringPiI2CWrite_def sleep_for_microseconds_def)
  have "fst (fetch_loop 0 readBuffer (m\<lparr>hw := ?p2\<rparr>)) = frame_from (hw m)"
    using assms by (simp add: fetch_loop_buffer frame_from_def)
  moreover have "snd (fetch_loop 0 readBuffer (m\<lparr>hw := ?p2\<rparr>)) = fetched m"
    by (simp add: fetch_loop_machine fetched_def fetch_events_def replicate_6)
  ultimately show ?thesis unfolding start by (simp add: prod_eq_iff)
qed

text \<open>So the uninitialised start of \<^verbatim>\<open>readBuffer\<close> never reaches the decode.\<close>

lemma fetchDeviceBuffer_cells:
  "length b1 = 6 \<Longrightarrow> length b2 = 6 \<Longrightarrow> fetchDeviceBuffer b1 m = fetchDeviceBuffer b2 m"
  by (simp add: fetchDeviceBuffer_eq)

lemma readRawData_eq:
  "readRawData m = (parseDeviceBuffer (frame_from (hw m)), fetched m)"
  by (simp add: readRawData_def fetchDeviceBuffer_eq)

lemma readDeviceValues_eq:
  "readDeviceValues m =
     (let rawData = parseDeviceBuffer (frame_from (hw m))
      in NunchuckData
           (NunchuckJoystick (joystickPositionX rawData) (joystickPositionY rawData))
           (NunchuckAccelerometer (accelerationOnX rawData) (accelerationOnY rawData)
              (accelerationOnZ rawData))
           (NunchuckButton (buttonZState rawData))
           (NunchuckButton (buttonCState rawData)),
      fetched m)"
  by (simp add: readDeviceValues_def readRawData_eq Let_def)

section \<open>Fetching and reading\<close>

text \<open>
  C9. \<open>fetchDeviceBuffer\<close> makes, in this order, one \<open>wiringPiI2CWrite\<close> of the byte 0,
  one wait of the configured time and six \<open>wiringPiI2CRead\<close> calls, and nothing else; the
  six values read fill cells 0 to 5 of the buffer in the order of the reads.
\<close>

theorem fetchDeviceBuffer_sequence:
  assumes "length readBuffer = 6"
  shows "fetchDeviceBuffer readBuffer m =
     ([read_result (hw m) (reads_done (hw m)),
       read_result (hw m) (reads_done (hw m) + 1),
       read_result (hw m) (reads_done (hw m) + 2),
       read_result (hw m) (reads_done (hw m) + 3),
       read_result (hw m) (reads_done (hw m) + 4),
       read_result (hw m) (reads_done (hw m) + 5)],
      m\<lparr>hw := (hw m)
         \<lparr>reads_done := reads_done (hw m) + 6,
          trace := trace (hw m) @
            [I2CWrite (i2CPortFileDescriptor (obj m)) 0x00,
             SleepMicroseconds (circuitAdaptationWaitMicrosecons (obj m)),
             I2CRead (i2CPortFileDescriptor (obj m)),
             I2CRead (i2CPortFileDescriptor (obj m)),
             I2CRead (i2CPortFileDescriptor (obj m)),
             I2CRead (i2CPortFileDescriptor (obj m)),
             I2CRead (i2CPortFileDescriptor (obj m)),
             I2CRead (i2CPortFileDescriptor (obj m))]\<rparr>\<rparr>)"
  using assms by (simp add: fetchDeviceBuffer_eq frame_from_list fetched_def fetch_events_def)

text \<open>
  The witness for C9: a buffer of six cells and a platform that has answered one read
  before the fetch starts.
\<close>

theorem fetchDeviceBuffer_sequence_witness:
  "length [7, 7, 7, 7, 7, 7 :: cint] = 6
   \<and> fetchDeviceBuffer [7, 7, 7, 7, 7, 7]
        \<lparr>obj = \<lparr>encyptedModeEnabled = False, i2CPortFileDescriptor = 3,
                 circuitAdaptationWaitMicrosecons = 500\<rparr>,
         hw = \<lparr>setup_result = 3,
                read_result = (\<lambda>k. [0x80, 0x81, 0x10, 0x20, 0x30, 0xC3, 0x55] ! k),
                reads_done = 1, trace = []\<rparr>\<rparr>
      = ([0x81, 0x10, 0x20, 0x30, 0xC3, 0x55],
         \<lparr>obj = \<lparr>encyptedModeEnabled = False, i2CPortFileDescriptor = 3,
                 circuitAdaptationWaitMicrosecons = 500\<rparr>,
          hw = \<lparr>setup_result = 3,
                read_result = (\<lambda>k. [0x80, 0x81, 0x10, 0x20, 0x30, 0xC3, 0x55] ! k),
                reads_done = 7,
                trace = [I2CWrite 3 0, SleepMicroseconds 500, I2CRead 3, I2CRead 3,
                         I2CRead 3, I2CRead 3, I2CRead 3, I2CRead 3]\<rparr>\<rparr>)"
  using fetchDeviceBuffer_sequence [of "[7, 7, 7, 7, 7, 7]"
        "\<lparr>obj = \<lparr>encyptedModeEnabled = False, i2CPortFileDescriptor = 3,
                 circuitAdaptationWaitMicrosecons = 500\<rparr>,
         hw = \<lparr>setup_result = 3,
                read_result = (\<lambda>k. [0x80, 0x81, 0x10, 0x20, 0x30, 0xC3, 0x55] ! k),
                reads_done = 1, trace = []\<rparr>\<rparr>"]
  by simp

text \<open>
  C2, as amended. \<open>readRawData\<close> never inspects what a read returns: whatever the six
  reads return, the negative value of a failed read included, it makes all six reads and
  returns the \<open>RawNunchuckData\<close> that \<open>parseDeviceBuffer\<close> computes from the six values as
  returned. It has no failing branch.
\<close>

theorem readRawData_ignores_read_failure:
  "readRawData m =
     (parseDeviceBuffer
        [read_result (hw m) (reads_done (hw m)),
         read_result (hw m) (reads_done (hw m) + 1),
         read_result (hw m) (reads_done (hw m) + 2),
         read_result (hw m) (reads_done (hw m) + 3),
         read_result (hw m) (reads_done (hw m) + 4),
         read_result (hw m) (reads_done (hw m) + 5)],
      m\<lparr>hw := (hw m)\<lparr>reads_done := reads_done (hw m) + 6,
                      trace := trace (hw m) @ fetch_events (obj m)\<rparr>\<rparr>)"
  by (simp add: readRawData_eq frame_from_list fetched_def)

text \<open>
  C2, as the specification states it, fails: when the first read of a fetch fails
  (returns \<open>- 1\<close>), the remaining five reads are still made and \<open>readRawData\<close> returns a
  \<open>RawNunchuckData\<close> whose \<open>joystickPositionX\<close> is \<open>- 1\<close>.
\<close>

theorem readRawData_failed_read_counterexample:
  "sint (read_result (hw
      \<lparr>obj = \<lparr>encyptedModeEnabled = False, i2CPortFileDescriptor = 3,
               circuitAdaptationWaitMicrosecons = 500\<rparr>,
       hw = \<lparr>setup_result = 3,
              read_result = (\<lambda>k. if k = 0 then - 1 else 0x80),
              reads_done = 0, trace = []\<rparr>\<rparr>) 0) < 0
   \<and> readRawData
      \<lparr>obj = \<lparr>encyptedModeEnabled = False, i2CPortFileDescriptor = 3,
               circuitAdaptationWaitMicrosecons = 500\<rparr>,
       hw = \<lparr>setup_result = 3,
              read_result = (\<lambda>k. if k = 0 then - 1 else 0x80),
              reads_done = 0, trace = []\<rparr>\<rparr>
     = (\<lparr>joystickPositionX = - 1, joystickPositionY = 128,
         accelerationOnX = 514, accelerationOnY = 512, accelerationOnZ = 512,
         buttonCState = 0, buttonZState = 0\<rparr>,
        \<lparr>obj = \<lparr>encyptedModeEnabled = False, i2CPortFileDescriptor = 3,
                 circuitAdaptationWaitMicrosecons = 500\<rparr>,
         hw = \<lparr>setup_result = 3,
                read_result = (\<lambda>k. if k = 0 then - 1 else 0x80),
                reads_done = 6,
                trace = [I2CWrite 3 0, SleepMicroseconds 500, I2CRead 3, I2CRead 3,
                         I2CRead 3, I2CRead 3, I2CRead 3, I2CRead 3]\<rparr>\<rparr>)"
  by (simp add: readRawData_eq frame_from_list fetched_def fetch_events_def
                parseDeviceBuffer_def)

text \<open>
  C1 at a failing input: a driver constructed in \<open>ENCRYPTED\<close> mode, with the wait 500,
  on a bus whose setup returns the descriptor 3 and whose reads all return \<open>0x00\<close>. The
  constructor succeeds and sets the flag, and \<open>readRawData\<close> then decodes the six bytes
  as fetched: \<open>joystickPositionX\<close> is \<open>0x00\<close>, where decoding the decrypted bytes gives
  \<open>0x2E\<close>. \<open>readRawData\<close> calls \<open>fetchDeviceBuffer\<close> and \<open>parseDeviceBuffer\<close> only, in
  either mode.
\<close>

theorem readRawData_encrypted_mode_raw_bytes:
  "NunchuckReader_ctor 500 ENCRYPTED
      \<lparr>encyptedModeEnabled = False, i2CPortFileDescriptor = 0,
       circuitAdaptationWaitMicrosecons = 0\<rparr>
      \<lparr>setup_result = 3, read_result = (\<lambda>k. 0x00), reads_done = 0, trace = []\<rparr>
     = (Inr \<lparr>encyptedModeEnabled = True, i2CPortFileDescriptor = 3,
              circuitAdaptationWaitMicrosecons = 500\<rparr>,
        \<lparr>setup_result = 3, read_result = (\<lambda>k. 0x00), reads_done = 0,
         trace = [I2CSetup 0x52, I2CWriteReg8 3 0x40 0x00, SleepMicroseconds 500]\<rparr>)
   \<and> fst (readRawData
        \<lparr>obj = \<lparr>encyptedModeEnabled = True, i2CPortFileDescriptor = 3,
                 circuitAdaptationWaitMicrosecons = 500\<rparr>,
         hw = \<lparr>setup_result = 3, read_result = (\<lambda>k. 0x00), reads_done = 0,
                trace = [I2CSetup 0x52, I2CWriteReg8 3 0x40 0x00, SleepMicroseconds 500]\<rparr>\<rparr>)
       = parseDeviceBuffer [0x00, 0x00, 0x00, 0x00, 0x00, 0x00]
   \<and> joystickPositionX (parseDeviceBuffer [0x00, 0x00, 0x00, 0x00, 0x00, 0x00]) = 0x00
   \<and> joystickPositionX (parseDeviceBuffer (map decrypt [0x00, 0x00, 0x00, 0x00, 0x00, 0x00]))
       = 0x2E"
  by (simp add: NunchuckReader_ctor_def initI2C_def wiringPiI2CSetup_def
        initWithEncryption_def wiringPiI2CWriteReg8_def sleep_for_microseconds_def
        MINIMUN_CIRCUIT_ADAPTATION_WAIT_MICROSECONDS_def NUNCHUCK_I2C_ADDRESS_def
        readRawData_eq frame_from_list parseDeviceBuffer_def decrypt_def)

section \<open>The decode on byte frames\<close>

lemma byte_frame_nth:
  assumes "byte_frame readBuffer" and "k < 6"
  shows "is_byte (readBuffer ! k)"
  using assms by (simp add: byte_frame_def list_all_length)

lemma reading_of_parseDeviceBuffer:
  assumes bf: "byte_frame readBuffer"
  shows "reading_of (parseDeviceBuffer readBuffer) = spec_decode (map sint readBuffer)"
proof -
  have len: "length readBuffer = 6" using bf by (simp add: byte_frame_def)
  have b2: "uint (readBuffer ! 2) = sint (readBuffer ! 2)" "uint (readBuffer ! 2) < 256"
    using is_byte_uint [OF byte_frame_nth [OF bf, of 2]] by simp_all
  have b3: "uint (readBuffer ! 3) = sint (readBuffer ! 3)" "uint (readBuffer ! 3) < 256"
    using is_byte_uint [OF byte_frame_nth [OF bf, of 3]] by simp_all
  have b4: "uint (readBuffer ! 4) = sint (readBuffer ! 4)" "uint (readBuffer ! 4) < 256"
    using is_byte_uint [OF byte_frame_nth [OF bf, of 4]] by simp_all
  have b5: "uint (readBuffer ! 5) = sint (readBuffer ! 5)" "uint (readBuffer ! 5) < 256"
    using is_byte_uint [OF byte_frame_nth [OF bf, of 5]] by simp_all
  have x: "sint (push_bit 2 (readBuffer ! 2) OR signed_drop_bit 6 (readBuffer ! 5 AND 0xc0))
             = push_bit 2 (sint (readBuffer ! 2)) OR drop_bit 6 (sint (readBuffer ! 5) AND 0xC0)"
    using accel_field (1) [OF b2(2), of "0xc0" 6 "readBuffer ! 5"] b2(1) b5(1) by simp
  have y: "sint (push_bit 2 (readBuffer ! 3) OR signed_drop_bit 4 (readBuffer ! 5 AND 0x30))
             = push_bit 2 (sint (readBuffer ! 3)) OR drop_bit 4 (sint (readBuffer ! 5) AND 0x30)"
    using accel_field (1) [OF b3(2), of "0x30" 4 "readBuffer ! 5"] b3(1) b5(1) by simp
  have z: "sint (push_bit 2 (readBuffer ! 4) OR signed_drop_bit 2 (readBuffer ! 5 AND 0x0c))
             = push_bit 2 (sint (readBuffer ! 4)) OR drop_bit 2 (sint (readBuffer ! 5) AND 0x0C)"
    using accel_field (1) [OF b4(2), of "0x0c" 2 "readBuffer ! 5"] b4(1) b5(1) by simp
  have "uint (signed_drop_bit 1 (readBuffer ! 5 AND 0x02)) < 2 ^ 31"
    using uint_shifted_field (2) [of "0x02" 1 "readBuffer ! 5"] by simp
  then have "sint (signed_drop_bit 1 (readBuffer ! 5 AND 0x02))
               = uint (signed_drop_bit 1 (readBuffer ! 5 AND 0x02))"
    by (rule sint_small)
  then have c: "sint (signed_drop_bit 1 (readBuffer ! 5 AND 0x02))
                  = drop_bit 1 (sint (readBuffer ! 5) AND 0x02)"
    using uint_shifted_field (1) [of "0x02" 1 "readBuffer ! 5"] b5(1) by simp
  have "uint (readBuffer ! 5 AND 0x01) < 2 ^ 31"
    using uint_and_low (2) [of "0x01" "readBuffer ! 5"] by simp
  then have "sint (readBuffer ! 5 AND 0x01) = uint (readBuffer ! 5 AND 0x01)"
    by (rule sint_small)
  then have bz: "sint (readBuffer ! 5 AND 0x01) = sint (readBuffer ! 5) AND 0x01"
    using uint_and_low (1) [of "0x01" "readBuffer ! 5"] b5(1) by simp
  show ?thesis
    using len x y z c bz
    by (simp add: reading_of_def parseDeviceBuffer_def spec_decode_def)
qed

text \<open>
  C4. For every frame of six byte values, \<open>parseDeviceBuffer\<close> returns what the decode of
  the specification returns on the same six integers: the joystick coordinates are bytes 0
  and 1, each acceleration is its coarse byte shifted left by two, or-ed with its two bits
  of byte 5, button C is bit 1 of byte 5 and button Z is bit 0. In particular a driver
  with encryption inactive that fetches \<open>[0x80, 0x80, 0x10, 0x20, 0x30, 0xC3]\<close> returns
  \<open>accelX = 67\<close>, \<open>buttonC = 1\<close> and \<open>buttonZ = 1\<close>.
\<close>

theorem parseDeviceBuffer_decode:
  "(byte_frame readBuffer \<longrightarrow>
      reading_of (parseDeviceBuffer readBuffer) = spec_decode (map sint readBuffer))
   \<and> (\<not> encyptedModeEnabled (obj m)
        \<and> frame_from (hw m) = [0x80, 0x80, 0x10, 0x20, 0x30, 0xC3] \<longrightarrow>
      accelX (reading_of (fst (readRawData m))) = 67
      \<and> buttonC (reading_of (fst (readRawData m))) = 1
      \<and> buttonZ (reading_of (fst (readRawData m))) = 1)"
proof (intro conjI impI)
  assume "byte_frame readBuffer"
  then show "reading_of (parseDeviceBuffer readBuffer) = spec_decode (map sint readBuffer)"
    by (rule reading_of_parseDeviceBuffer)
next
  assume a: "\<not> encyptedModeEnabled (obj m)
        \<and> frame_from (hw m) = [0x80, 0x80, 0x10, 0x20, 0x30, 0xC3]"
  let ?f = "[0x80, 0x80, 0x10, 0x20, 0x30, 0xC3] :: cint list"
  have bf: "byte_frame ?f" by (simp add: byte_frame_def is_byte_def)
  have r: "reading_of (fst (readRawData m)) = spec_decode (map sint ?f)"
    using a reading_of_parseDeviceBuffer [OF bf] by (simp add: readRawData_eq)
  show "accelX (reading_of (fst (readRawData m))) = 67"
    unfolding r by (simp add: spec_decode_def)
  show "buttonC (reading_of (fst (readRawData m))) = 1"
    unfolding r by (simp add: spec_decode_def)
  show "buttonZ (reading_of (fst (readRawData m))) = 1"
    unfolding r by (simp add: spec_decode_def)
qed

text \<open>
  The witness for C4: the byte frame \<open>[0x01, 0xFF, 0xAB, 0x00, 0x7F, 0x6D]\<close> and a driver in
  plain mode whose six reads return the frame of the specification's example.
\<close>

theorem parseDeviceBuffer_decode_witness:
  "byte_frame [0x01, 0xFF, 0xAB, 0x00, 0x7F, 0x6D]
   \<and> reading_of (parseDeviceBuffer [0x01, 0xFF, 0xAB, 0x00, 0x7F, 0x6D])
       = \<lparr>joystickX = 1, joystickY = 255, accelX = 685, accelY = 2, accelZ = 511,
          buttonC = 0, buttonZ = 1\<rparr>
   \<and> \<not> encyptedModeEnabled (obj
        \<lparr>obj = \<lparr>encyptedModeEnabled = False, i2CPortFileDescriptor = 3,
                 circuitAdaptationWaitMicrosecons = 500\<rparr>,
         hw = \<lparr>setup_result = 3,
                read_result = (\<lambda>k. [0x80, 0x80, 0x10, 0x20, 0x30, 0xC3] ! k),
                reads_done = 0, trace = []\<rparr>\<rparr>)
   \<and> accelX (reading_of (fst (readRawData
        \<lparr>obj = \<lparr>encyptedModeEnabled = False, i2CPortFileDescriptor = 3,
                 circuitAdaptationWaitMicrosecons = 500\<rparr>,
         hw = \<lparr>setup_result = 3,
                read_result = (\<lambda>k. [0x80, 0x80, 0x10, 0x20, 0x30, 0xC3] ! k),
                reads_done = 0, trace = []\<rparr>\<rparr>))) = 67"
  using parseDeviceBuffer_decode [of "[0x01, 0xFF, 0xAB, 0x00, 0x7F, 0x6D]"
        "\<lparr>obj = \<lparr>encyptedModeEnabled = False, i2CPortFileDescriptor = 3,
                 circuitAdaptationWaitMicrosecons = 500\<rparr>,
         hw = \<lparr>setup_result = 3,
                read_result = (\<lambda>k. [0x80, 0x80, 0x10, 0x20, 0x30, 0xC3] ! k),
                reads_done = 0, trace = []\<rparr>\<rparr>"]
  by (simp add: byte_frame_def is_byte_def spec_decode_def frame_from_list)

text \<open>
  C5. \<open>parseDeviceBuffer\<close> is a function of the frame alone with no failing branch, and
  on every frame of six byte values the three accelerations lie between 0 and 1023 and
  the two button states are 0 or 1.
\<close>

theorem parseDeviceBuffer_ranges:
  assumes bf: "byte_frame readBuffer"
  shows "accelX (reading_of (parseDeviceBuffer readBuffer)) \<in> {0..1023}
       \<and> accelY (reading_of (parseDeviceBuffer readBuffer)) \<in> {0..1023}
       \<and> accelZ (reading_of (parseDeviceBuffer readBuffer)) \<in> {0..1023}
       \<and> buttonC (reading_of (parseDeviceBuffer readBuffer)) \<in> {0, 1}
       \<and> buttonZ (reading_of (parseDeviceBuffer readBuffer)) \<in> {0, 1}"
proof -
  have b2: "uint (readBuffer ! 2) < 256"
    using is_byte_uint (2) [OF byte_frame_nth [OF bf, of 2]] by simp
  have b3: "uint (readBuffer ! 3) < 256"
    using is_byte_uint (2) [OF byte_frame_nth [OF bf, of 3]] by simp
  have b4: "uint (readBuffer ! 4) < 256"
    using is_byte_uint (2) [OF byte_frame_nth [OF bf, of 4]] by simp
  have x: "accelX (reading_of (parseDeviceBuffer readBuffer)) \<in> {0..1023}"
    using accel_field (2,3) [OF b2, of "0xc0" 6 "readBuffer ! 5"]
    by (simp add: reading_of_def parseDeviceBuffer_def)
  have y: "accelY (reading_of (parseDeviceBuffer readBuffer)) \<in> {0..1023}"
    using accel_field (2,3) [OF b3, of "0x30" 4 "readBuffer ! 5"]
    by (simp add: reading_of_def parseDeviceBuffer_def)
  have z: "accelZ (reading_of (parseDeviceBuffer readBuffer)) \<in> {0..1023}"
    using accel_field (2,3) [OF b4, of "0x0c" 2 "readBuffer ! 5"]
    by (simp add: reading_of_def parseDeviceBuffer_def)
  let ?p = "sint (readBuffer ! 5)"
  have r: "reading_of (parseDeviceBuffer readBuffer) = spec_decode (map sint readBuffer)"
    using bf by (rule reading_of_parseDeviceBuffer)
  have len: "length readBuffer = 6" using bf by (simp add: byte_frame_def)
  have "?p AND 2 \<le> 2" by (rule AND_upper2) simp
  moreover have "0 \<le> ?p AND 2" by simp
  ultimately have "(?p AND 2) div 2 = 0 \<or> (?p AND 2) div 2 = 1" by arith
  then have "drop_bit 1 (?p AND 2) \<in> {0, 1}"
    by (simp add: drop_bit_eq_div)
  then have c: "buttonC (reading_of (parseDeviceBuffer readBuffer)) \<in> {0, 1}"
    unfolding r using len by (simp add: spec_decode_def)
  have "?p AND 1 \<le> 1" by (rule AND_upper2) simp
  moreover have "0 \<le> ?p AND 1" by simp
  ultimately have "?p AND 1 = 0 \<or> ?p AND 1 = 1" by arith
  then have "?p AND 1 \<in> {0, 1}" by simp
  then have bz: "buttonZ (reading_of (parseDeviceBuffer readBuffer)) \<in> {0, 1}"
    unfolding r using len by (simp add: spec_decode_def)
  from x y z c bz show ?thesis by simp
qed

text \<open>The witness for C5: the frame of six bytes \<open>0xFF\<close>.\<close>

theorem parseDeviceBuffer_ranges_witness:
  "byte_frame [0xFF, 0xFF, 0xFF, 0xFF, 0xFF, 0xFF]
   \<and> accelX (reading_of (parseDeviceBuffer [0xFF, 0xFF, 0xFF, 0xFF, 0xFF, 0xFF])) \<in> {0..1023}
   \<and> accelY (reading_of (parseDeviceBuffer [0xFF, 0xFF, 0xFF, 0xFF, 0xFF, 0xFF])) \<in> {0..1023}
   \<and> accelZ (reading_of (parseDeviceBuffer [0xFF, 0xFF, 0xFF, 0xFF, 0xFF, 0xFF])) \<in> {0..1023}
   \<and> buttonC (reading_of (parseDeviceBuffer [0xFF, 0xFF, 0xFF, 0xFF, 0xFF, 0xFF])) \<in> {0, 1}
   \<and> buttonZ (reading_of (parseDeviceBuffer [0xFF, 0xFF, 0xFF, 0xFF, 0xFF, 0xFF])) \<in> {0, 1}"
proof -
  have h: "byte_frame [0xFF, 0xFF, 0xFF, 0xFF, 0xFF, 0xFF]"
    by (simp add: byte_frame_def is_byte_def)
  from h parseDeviceBuffer_ranges [OF h] show ?thesis by (rule conjI)
qed

section \<open>The decrypt transform\<close>

text \<open>
  C3, as amended. For every byte value \<open>b\<close> (0 to 255), \<open>decrypt\<close> returns
  \<open>(b XOR 0x17) + 0x17\<close> as an \<^verbatim>\<open>int\<close>, with no reduction modulo 256; in particular
  \<open>decrypt 0x00\<close> is \<open>0x2E\<close> and \<open>decrypt 0xFF\<close> is \<open>0xFF\<close>.
\<close>

theorem decrypt_byte:
  "(is_byte b \<longrightarrow> sint (decrypt b) = (sint b XOR 0x17) + 0x17)
   \<and> sint (decrypt 0x00) = 0x2E \<and> sint (decrypt 0xFF) = 0xFF"
proof (intro conjI impI)
  assume b: "is_byte b"
  have u: "uint b = sint b" and lt: "uint b < 2 ^ 8"
    using is_byte_uint [OF b] by simp_all
  have x: "uint (b XOR 0x17) = uint b XOR 0x17" by (simp add: uint_xor)
  have "uint b XOR 0x17 < 2 ^ 8" using lt by (intro XOR_upper) simp_all
  then have xlt: "uint (b XOR 0x17) < 256" using x by simp
  then have "uint (b XOR 0x17) + uint (0x17 :: cint) < 2 ^ LENGTH(32)" by simp
  then have a: "uint ((b XOR 0x17) + 0x17) = uint (b XOR 0x17) + uint (0x17 :: cint)"
    by (simp only: uint_add_lem)
  have "uint ((b XOR 0x17) + 0x17) < 2 ^ 31" using a xlt by simp
  then have "sint ((b XOR 0x17) + 0x17) = uint ((b XOR 0x17) + 0x17)" by (rule sint_small)
  then show "sint (decrypt b) = (sint b XOR 0x17) + 0x17"
    using a x u by (simp add: decrypt_def)
next
  show "sint (decrypt 0x00) = 0x2E" by (simp add: decrypt_def)
next
  show "sint (decrypt 0xFF) = 0xFF" by (simp add: decrypt_def)
qed

text \<open>The witness for C3: the byte \<open>0xFE\<close>, whose transform is 256.\<close>

theorem decrypt_byte_witness:
  "is_byte 0xFE \<and> sint (decrypt 0xFE) = 256
   \<and> sint (decrypt 0x00) = 0x2E \<and> sint (decrypt 0xFF) = 0xFF"
  using decrypt_byte [of "0xFE"] by (simp add: is_byte_def)

text \<open>
  C3, as the specification states it, fails: the specification's vector for \<open>0xFF\<close> is
  \<open>0x0F\<close> where the code returns \<open>0xFF\<close>, and at \<open>0xFE\<close> the code returns 256 where
  the reduction modulo 256 gives 0.
\<close>

theorem decrypt_counterexample:
  "sint (decrypt 0xFF) \<noteq> 0x0F \<and> sint (decrypt 0xFE) \<noteq> spec_decrypt 0xFE"
  by (simp add: decrypt_def spec_decrypt_def)

section \<open>The structured reading\<close>

text \<open>
  C6. Whatever the bus returns, each value that \<open>readDeviceValues\<close> returns is the field
  of the same name of what \<open>readRawData\<close> returns on the same machine: the two joystick
  coordinates, the three accelerations, the state of button C in the C button and the
  state of button Z in the Z button. The machine after \<open>readDeviceValues\<close>, its trace of bus
  calls included, is the machine after that one \<open>readRawData\<close>.
\<close>

theorem readDeviceValues_repackages:
  "joystick_x (data_joystick (fst (readDeviceValues m))) = joystickPositionX (fst (readRawData m))
   \<and> joystick_y (data_joystick (fst (readDeviceValues m))) = joystickPositionY (fst (readRawData m))
   \<and> accelerometer_x (data_accelerometer (fst (readDeviceValues m)))
       = accelerationOnX (fst (readRawData m))
   \<and> accelerometer_y (data_accelerometer (fst (readDeviceValues m)))
       = accelerationOnY (fst (readRawData m))
   \<and> accelerometer_z (data_accelerometer (fst (readDeviceValues m)))
       = accelerationOnZ (fst (readRawData m))
   \<and> button_state (data_buttonC (fst (readDeviceValues m))) = buttonCState (fst (readRawData m))
   \<and> button_state (data_buttonZ (fst (readDeviceValues m))) = buttonZState (fst (readRawData m))
   \<and> snd (readDeviceValues m) = snd (readRawData m)"
  by (simp add: readDeviceValues_def split_def Let_def)

section \<open>Construction\<close>

text \<open>
  C7. A wait below 300 makes the constructor throw before it calls anything: the platform,
  and so the trace of bus calls, is returned as it was. With the wait 300 that error is
  not raised. The one-argument constructor is the two-argument one with the wait 500.
\<close>

theorem ctor_minimum_wait:
  "(sint w < 300 \<longrightarrow>
      NunchuckReader_ctor w mode storage p = (Inl MinimumWaitViolated, p))
   \<and> fst (NunchuckReader_ctor 300 mode storage p) \<noteq> Inl MinimumWaitViolated
   \<and> NunchuckReader_ctor_default mode storage p = NunchuckReader_ctor 500 mode storage p"
proof (intro conjI impI)
  assume "sint w < 300"
  then show "NunchuckReader_ctor w mode storage p = (Inl MinimumWaitViolated, p)"
    by (simp add: NunchuckReader_ctor_def MINIMUN_CIRCUIT_ADAPTATION_WAIT_MICROSECONDS_def)
next
  show "fst (NunchuckReader_ctor 300 mode storage p) \<noteq> Inl MinimumWaitViolated"
    by (cases mode)
       (simp_all add: NunchuckReader_ctor_def MINIMUN_CIRCUIT_ADAPTATION_WAIT_MICROSECONDS_def
          initI2C_def wiringPiI2CSetup_def Let_def)
next
  show "NunchuckReader_ctor_default mode storage p = NunchuckReader_ctor 500 mode storage p"
    by (simp add: NunchuckReader_ctor_default_def
          DEFAULT_CIRCUIT_ADAPTATION_WAIT_MICROSECONDS_def)
qed

text \<open>The witness for C7: the wait 299.\<close>

theorem ctor_minimum_wait_witness:
  "sint (299 :: cint) < 300
   \<and> NunchuckReader_ctor 299 NOT_ENCRYPTED
        \<lparr>encyptedModeEnabled = False, i2CPortFileDescriptor = 0,
         circuitAdaptationWaitMicrosecons = 0\<rparr>
        \<lparr>setup_result = 3, read_result = (\<lambda>k. 0x80), reads_done = 0, trace = []\<rparr>
       = (Inl MinimumWaitViolated,
          \<lparr>setup_result = 3, read_result = (\<lambda>k. 0x80), reads_done = 0, trace = []\<rparr>)"
  using ctor_minimum_wait [of 299 NOT_ENCRYPTED
        "\<lparr>encyptedModeEnabled = False, i2CPortFileDescriptor = 0,
         circuitAdaptationWaitMicrosecons = 0\<rparr>"
        "\<lparr>setup_result = 3, read_result = (\<lambda>k. 0x80), reads_done = 0, trace = []\<rparr>"]
  by simp

text \<open>
  C8. With an accepted wait and a bus whose setup succeeds (returns a descriptor that is
  not negative), the constructor in \<open>ENCRYPTED\<close> mode writes the one byte \<open>0x00\<close> to
  register \<open>0x40\<close>, waits the configured time and leaves an object with the flag set; in
  \<open>NOT_ENCRYPTED\<close> mode it writes \<open>0x55\<close> to register \<open>0xF0\<close>, then \<open>0x00\<close> to register
  \<open>0xFB\<close>, waits the configured time and leaves an object with the flag cleared. The
  trace shows these calls, in this order, after the setup call and nothing else.
\<close>

theorem ctor_handshake:
  assumes "300 \<le> sint w" and "0 \<le> sint (setup_result p)"
  shows "NunchuckReader_ctor w ENCRYPTED storage p =
           (Inr \<lparr>encyptedModeEnabled = True, i2CPortFileDescriptor = setup_result p,
                 circuitAdaptationWaitMicrosecons = w\<rparr>,
            p\<lparr>trace := trace p @
                 [I2CSetup 0x52,
                  I2CWriteReg8 (setup_result p) 0x40 0x00,
                  SleepMicroseconds w]\<rparr>)
       \<and> NunchuckReader_ctor w NOT_ENCRYPTED storage p =
           (Inr \<lparr>encyptedModeEnabled = False, i2CPortFileDescriptor = setup_result p,
                 circuitAdaptationWaitMicrosecons = w\<rparr>,
            p\<lparr>trace := trace p @
                 [I2CSetup 0x52,
                  I2CWriteReg8 (setup_result p) 0xF0 0x55,
                  I2CWriteReg8 (setup_result p) 0xFB 0x00,
                  SleepMicroseconds w]\<rparr>)"
  using assms
  by (simp add: NunchuckReader_ctor_def MINIMUN_CIRCUIT_ADAPTATION_WAIT_MICROSECONDS_def
        initI2C_def wiringPiI2CSetup_def NUNCHUCK_I2C_ADDRESS_def Let_def
        initWithEncryption_def initWithoutEncryption_def wiringPiI2CWriteReg8_def
        sleep_for_microseconds_def)

text \<open>The witness for C8: the wait 300 on a bus whose setup returns the descriptor 3.\<close>

theorem ctor_handshake_witness:
  "300 \<le> sint (300 :: cint)
   \<and> 0 \<le> sint (setup_result
        \<lparr>setup_result = 3, read_result = (\<lambda>k. 0x80), reads_done = 0, trace = []\<rparr>)
   \<and> NunchuckReader_ctor 300 ENCRYPTED
        \<lparr>encyptedModeEnabled = False, i2CPortFileDescriptor = 0,
         circuitAdaptationWaitMicrosecons = 0\<rparr>
        \<lparr>setup_result = 3, read_result = (\<lambda>k. 0x80), reads_done = 0, trace = []\<rparr>
       = (Inr \<lparr>encyptedModeEnabled = True, i2CPortFileDescriptor = 3,
               circuitAdaptationWaitMicrosecons = 300\<rparr>,
          \<lparr>setup_result = 3, read_result = (\<lambda>k. 0x80), reads_done = 0,
           trace = [I2CSetup 0x52, I2CWriteReg8 3 0x40 0x00, SleepMicroseconds 300]\<rparr>)
   \<and> NunchuckReader_ctor 300 NOT_ENCRYPTED
        \<lparr>encyptedModeEnabled = True, i2CPortFileDescriptor = 0,
         circuitAdaptationWaitMicrosecons = 0\<rparr>
        \<lparr>setup_result = 3, read_result = (\<lambda>k. 0x80), reads_done = 0, trace = []\<rparr>
       = (Inr \<lparr>encyptedModeEnabled = False, i2CPortFileDescriptor = 3,
               circuitAdaptationWaitMicrosecons = 300\<rparr>,
          \<lparr>setup_result = 3, read_result = (\<lambda>k. 0x80), reads_done = 0,
           trace = [I2CSetup 0x52, I2CWriteReg8 3 0xF0 0x55, I2CWriteReg8 3 0xFB 0x00,
                    SleepMicroseconds 300]\<rparr>)"
  using ctor_handshake [of 300
        "\<lparr>setup_result = 3, read_result = (\<lambda>k. 0x80), reads_done = 0, trace = []\<rparr>"
        "\<lparr>encyptedModeEnabled = False, i2CPortFileDescriptor = 0,
         circuitAdaptationWaitMicrosecons = 0\<rparr>"]
    ctor_handshake [of 300
        "\<lparr>setup_result = 3, read_result = (\<lambda>k. 0x80), reads_done = 0, trace = []\<rparr>"
        "\<lparr>encyptedModeEnabled = True, i2CPortFileDescriptor = 0,
         circuitAdaptationWaitMicrosecons = 0\<rparr>"]
  by simp

section \<open>The object after initialisation\<close>

lemma perform_obj: "obj (perform x m) = obj m"
  by (cases x)
     (simp_all add: readRawData_eq readDeviceValues_eq fetched_def isEncryptedModeEnabled_def)

lemma ctor_flag:
  assumes "NunchuckReader_ctor w mode storage p = (Inr r, p')"
  shows "encyptedModeEnabled r = (mode = ENCRYPTED)"
  using assms
  by (cases mode)
     (auto simp: NunchuckReader_ctor_def initI2C_def wiringPiI2CSetup_def Let_def
        initWithEncryption_def initWithoutEncryption_def split: if_splits)

text \<open>
  C10. \<open>readRawData\<close> and \<open>readDeviceValues\<close> leave the object (flag, descriptor and wait)
  as it was, \<open>isEncryptedModeEnabled\<close> returns the flag and leaves the whole machine as
  it was, and so does every sequence of the three. After a constructor that succeeded,
  and after any such sequence, \<open>isEncryptedModeEnabled\<close> answers whether the mode given to
  the constructor was \<open>ENCRYPTED\<close>.
\<close>

theorem reads_preserve_driver_state:
  "obj (snd (readRawData m)) = obj m
   \<and> obj (snd (readDeviceValues m)) = obj m
   \<and> isEncryptedModeEnabled m = (encyptedModeEnabled (obj m), m)
   \<and> obj (run ops m) = obj m
   \<and> (NunchuckReader_ctor w mode storage p = (Inr r, p') \<longrightarrow>
        fst (isEncryptedModeEnabled (run ops \<lparr>obj = r, hw = p'\<rparr>)) = (mode = ENCRYPTED))"
proof -
  have run_obj: "obj (run ops m) = obj m" for m
    by (induction ops arbitrary: m) (simp_all add: perform_obj)
  have a: "obj (snd (readRawData m)) = obj m"
    using perform_obj [of ReadRawData m] by simp
  have b: "obj (snd (readDeviceValues m)) = obj m"
    using perform_obj [of ReadDeviceValues m] by simp
  have c: "isEncryptedModeEnabled m = (encyptedModeEnabled (obj m), m)"
    by (simp add: isEncryptedModeEnabled_def)
  have d: "fst (isEncryptedModeEnabled (run ops \<lparr>obj = r, hw = p'\<rparr>)) = (mode = ENCRYPTED)"
    if "NunchuckReader_ctor w mode storage p = (Inr r, p')"
    using ctor_flag [OF that] run_obj [of "\<lparr>obj = r, hw = p'\<rparr>"]
    by (simp add: isEncryptedModeEnabled_def)
  from a b c d run_obj show ?thesis by blast
qed

text \<open>
  The witness for C10: a driver constructed in \<open>ENCRYPTED\<close> mode, then a raw read, a query
  of the flag and a structured read.
\<close>

theorem reads_preserve_driver_state_witness:
  "NunchuckReader_ctor 500 ENCRYPTED
      \<lparr>encyptedModeEnabled = False, i2CPortFileDescriptor = 0,
       circuitAdaptationWaitMicrosecons = 0\<rparr>
      \<lparr>setup_result = 3, read_result = (\<lambda>k. 0x80), reads_done = 0, trace = []\<rparr>
     = (Inr \<lparr>encyptedModeEnabled = True, i2CPortFileDescriptor = 3,
              circuitAdaptationWaitMicrosecons = 500\<rparr>,
        \<lparr>setup_result = 3, read_result = (\<lambda>k. 0x80), reads_done = 0,
         trace = [I2CSetup 0x52, I2CWriteReg8 3 0x40 0x00, SleepMicroseconds 500]\<rparr>)
   \<and> fst (isEncryptedModeEnabled
        (run [ReadRawData, IsEncryptedModeEnabled, ReadDeviceValues]
           \<lparr>obj = \<lparr>encyptedModeEnabled = True, i2CPortFileDescriptor = 3,
                    circuitAdaptationWaitMicrosecons = 500\<rparr>,
            hw = \<lparr>setup_result = 3, read_result = (\<lambda>k. 0x80), reads_done = 0,
                   trace = [I2CSetup 0x52, I2CWriteReg8 3 0x40 0x00,
                            SleepMicroseconds 500]\<rparr>\<rparr>))"
proof -
  have h: "NunchuckReader_ctor 500 ENCRYPTED
      \<lparr>encyptedModeEnabled = False, i2CPortFileDescriptor = 0,
       circuitAdaptationWaitMicrosecons = 0\<rparr>
      \<lparr>setup_result = 3, read_result = (\<lambda>k. 0x80), reads_done = 0, trace = []\<rparr>
     = (Inr \<lparr>encyptedModeEnabled = True, i2CPortFileDescriptor = 3,
              circuitAdaptationWaitMicrosecons = 500\<rparr>,
        \<lparr>setup_result = 3, read_result = (\<lambda>k. 0x80), reads_done = 0,
         trace = [I2CSetup 0x52, I2CWriteReg8 3 0x40 0x00, SleepMicroseconds 500]\<rparr>)"
    by (simp add: NunchuckReader_ctor_def MINIMUN_CIRCUIT_ADAPTATION_WAIT_MICROSECONDS_def
        initI2C_def wiringPiI2CSetup_def NUNCHUCK_I2C_ADDRESS_def Let_def
        initWithEncryption_def wiringPiI2CWriteReg8_def sleep_for_microseconds_def)
  show ?thesis
    using h reads_preserve_driver_state
      [of _ "[ReadRawData, IsEncryptedModeEnabled, ReadDeviceValues]" 500 ENCRYPTED
        "\<lparr>encyptedModeEnabled = False, i2CPortFileDescriptor = 0,
         circuitAdaptationWaitMicrosecons = 0\<rparr>"
        "\<lparr>setup_result = 3, read_result = (\<lambda>k. 0x80), reads_done = 0, trace = []\<rparr>"
        "\<lparr>encyptedModeEnabled = True, i2CPortFileDescriptor = 3,
              circuitAdaptationWaitMicrosecons = 500\<rparr>"
        "\<lparr>setup_result = 3, read_result = (\<lambda>k. 0x80), reads_done = 0,
         trace = [I2CSetup 0x52, I2CWriteReg8 3 0x40 0x00, SleepMicroseconds 500]\<rparr>"]
    by simp
qed

end
